theory Spec2Isabelle
  imports Main "HOL-Library.Word" "HOL-Library.Sublist"
begin

section \<open>Log levels (logger.go, lines 31-56)\<close>

text \<open>
  \<open>type LogLevel int8\<close>: a level is an 8-bit machine integer read as two's complement.
  Go's \<open>>=\<close> on \<open>int8\<close> is the signed order, written \<open>\<le>s\<close> on words.
\<close>

type_synonym LogLevel = "8 word"

text \<open>
  The constant block declares \<open>LogLevelTrace LogLevel = -1\<close> first and
  \<open>LogLevelDebug LogLevel = iota\<close> second. In Go \<open>iota\<close> is the index of the constant
  specification inside its block, counted from zero, whether or not the earlier lines use
  it. \<open>LogLevelDebug\<close> is the second specification, so \<open>iota\<close> is 1 there, and the
  following names repeat the expression with 2, 3, 4, 5 and 6.
\<close>

definition LogLevelTrace :: LogLevel where
  "LogLevelTrace = - 1"

definition LogLevelDebug :: LogLevel where
  "LogLevelDebug = 1"

definition LogLevelInfo :: LogLevel where
  "LogLevelInfo = 2"

definition LogLevelWarn :: LogLevel where
  "LogLevelWarn = 3"

definition LogLevelError :: LogLevel where
  "LogLevelError = 4"

definition LogLevelFatal :: LogLevel where
  "LogLevelFatal = 5"

definition LogLevelPanic :: LogLevel where
  "LogLevelPanic = 6"

text \<open>The map \<open>logLevels\<close> from levels to display names.\<close>

definition logLevels :: "LogLevel \<rightharpoonup> string" where
  "logLevels =
     [LogLevelTrace \<mapsto> ''TRACE'',
      LogLevelDebug \<mapsto> ''DEBUG'',
      LogLevelInfo \<mapsto> ''INFO'',
      LogLevelWarn \<mapsto> ''WARNING'',
      LogLevelError \<mapsto> ''ERROR'',
      LogLevelFatal \<mapsto> ''FATAL'',
      LogLevelPanic \<mapsto> ''PANIC'']"

text \<open>
  The index expression \<open>logLevels[level]\<close>: indexing a Go map with a key it does not hold
  yields the zero value of the element type, here the empty string.
\<close>

definition logLevels_index :: "LogLevel \<Rightarrow> string" where
  "logLevels_index l = (case logLevels l of None \<Rightarrow> [] | Some n \<Rightarrow> n)"

definition defaultLogLevel :: LogLevel where
  "defaultLogLevel = LogLevelWarn"


section \<open>The backend interface and the collector (lines 60-127)\<close>

text \<open>
  A value of type \<open>interface{}\<close> passed to a log call. The code itself only ever builds
  one kind of such value, the string that \<open>log\<close> puts in front of the caller's arguments;
  everything else is whatever the caller handed in.
\<close>

datatype 'a iface = IString string | IValue 'a

text \<open>
  A backend operation runs in some state \<open>'w\<close> and may change it. It may return to its
  caller, raise a Go panic that unwinds the caller, or end the process (\<open>os.Exit\<close>); in
  the last two cases nothing after the call runs.
\<close>

datatype 'w outcome = Returned 'w | Panicked 'w | Exited 'w

text \<open>The interface \<open>Logger\<close>: six operations on a state \<open>'w\<close>.\<close>

record ('a, 'w) Logger =
  Fatal_op :: "'a iface list \<Rightarrow> 'w \<Rightarrow> 'w outcome"
  Fatalf_op :: "string \<Rightarrow> 'a iface list \<Rightarrow> 'w \<Rightarrow> 'w outcome"
  Print_op :: "'a iface list \<Rightarrow> 'w \<Rightarrow> 'w outcome"
  Printf_op :: "string \<Rightarrow> 'a iface list \<Rightarrow> 'w \<Rightarrow> 'w outcome"
  Panic_op :: "'a iface list \<Rightarrow> 'w \<Rightarrow> 'w outcome"
  Panicf_op :: "string \<Rightarrow> 'a iface list \<Rightarrow> 'w \<Rightarrow> 'w outcome"

text \<open>
  The struct \<open>loggingCollector\<close>. The field \<open>logger\<close> holds an interface value: \<open>nil\<close>
  (\<open>None\<close>) or a reference to a backend object. \<open>'h\<close> is the type of such references;
  the methods of the object behind a reference are looked up when a method is called on
  it (see \<open>methods\<close> below).
\<close>

record 'h loggingCollector =
  level :: LogLevel
  logger :: "'h option"

definition Enabled :: "'h loggingCollector \<Rightarrow> LogLevel \<Rightarrow> bool" where
  "Enabled c l = (level c \<le>s l)"

definition SetLevel :: "LogLevel \<Rightarrow> 'h loggingCollector \<Rightarrow> 'h loggingCollector" where
  "SetLevel l c = c\<lparr>level := l\<rparr>"

definition Level :: "'h loggingCollector \<Rightarrow> LogLevel" where
  "Level c = level c"

text \<open>
  \<open>Logger()\<close> reads the package variable \<open>defaultLogger\<close>, a logger of the standard
  library; it is the parameter \<open>dl\<close> here.
\<close>

definition Logger :: "'h \<Rightarrow> 'h loggingCollector \<Rightarrow> 'h" where
  "Logger dl c = (case logger c of None \<Rightarrow> dl | Some l \<Rightarrow> l)"

definition SetLogger :: "'h option \<Rightarrow> 'h loggingCollector \<Rightarrow> 'h loggingCollector" where
  "SetLogger l c = c\<lparr>logger := l\<rparr>"

text \<open>The package variable \<open>defaultLoggingCollector\<close> (lines 215-218).\<close>

definition defaultLoggingCollector :: "'h \<Rightarrow> 'h loggingCollector" where
  "defaultLoggingCollector dl = \<lparr>level = defaultLogLevel, logger = Some dl\<rparr>"


section \<open>Composing the message (lines 130-134 and 148-152)\<close>

text \<open>
  The verb \<open>%d\<close> of \<open>fmt.Sprintf\<close> on an \<open>int\<close>: decimal digits, with a minus sign
  for a negative number.
\<close>

definition digit_char :: "nat \<Rightarrow> char" where
  "digit_char d = char_of (48 + d)"

fun decimal :: "nat \<Rightarrow> string" where
  "decimal n = (if n < 10 then [digit_char n] else decimal (n div 10) @ [digit_char (n mod 10)])"

declare decimal.simps [simp del]

definition fmt_d :: "int \<Rightarrow> string" where
  "fmt_d i = (if i < 0 then CHR ''-'' # decimal (nat (- i)) else decimal (nat i))"

text \<open>
  \<open>runtime.Caller\<close> belongs to the Go runtime. It is the parameter \<open>rt\<close>: given the
  number of stack frames to skip it answers \<open>Some (file, line)\<close> when it can report
  that frame (\<open>ok\<close> is true) and \<open>None\<close> when it cannot. Both dispatch functions ask
  for frame 2: frame 0 is the dispatch function itself, frame 1 the per-level method that
  called it, frame 2 the place that called this method.
\<close>

type_synonym Caller = "nat \<Rightarrow> (string \<times> int) option"

text \<open>
  The string \<open>format\<close> that \<open>logf\<close> has built when it reaches line 136: the level name,
  a newline and \<open>f\<close>; replaced by the \<open>Sprintf\<close> result when the caller is known; then
  prefixed with the tag.
\<close>

definition logf_format :: "Caller \<Rightarrow> LogLevel \<Rightarrow> string \<Rightarrow> string" where
  "logf_format rt lvl f =
     ''upper/db: '' @
     (case rt 2 of
        Some (file, line) \<Rightarrow>
          ''log_level='' @ logLevels_index lvl @ '' file='' @ file @ '':'' @ fmt_d line @
          [CHR 0x0A] @ f
      | None \<Rightarrow> logLevels_index lvl @ [CHR 0x0A] @ f)"

text \<open>The string \<open>format\<close> that \<open>log\<close> has built when it reaches line 153.\<close>

definition log_format :: "Caller \<Rightarrow> LogLevel \<Rightarrow> string" where
  "log_format rt lvl =
     ''upper/db: '' @
     (case rt 2 of
        Some (file, line) \<Rightarrow>
          ''log_level='' @ logLevels_index lvl @ '' file='' @ file @ '':'' @ fmt_d line @
          [CHR 0x0A]
      | None \<Rightarrow> logLevels_index lvl @ [CHR 0x0A])"


section \<open>Dispatch (lines 129-213)\<close>

text \<open>
  The state a log call runs in: the collector behind the pointer receiver \<open>c\<close>, which is
  the package's one collector, and the state \<open>'s\<close> of everything the backends write to.
  The package exports \<open>Log()\<close>, so the code of a backend can reach the collector as well
  as its own sink: a backend operation runs in, and may change, the whole state.
\<close>

type_synonym ('h, 's) world = "'h loggingCollector \<times> 's"

text \<open>
  A method call on an interface value runs the method of the object the value refers to:
  \<open>impl h\<close> are the six methods of the backend behind the reference \<open>h\<close>.
\<close>

type_synonym ('a, 'h, 's) methods = "'h \<Rightarrow> ('a, ('h, 's) world) Logger"

text \<open>Sequencing of statements: the next statement runs only if the previous one returned.\<close>

definition and_then :: "'w outcome \<Rightarrow> ('w \<Rightarrow> 'w outcome) \<Rightarrow> 'w outcome" where
  "and_then r k =
     (case r of Returned w \<Rightarrow> k w | Panicked w \<Rightarrow> Panicked w | Exited w \<Rightarrow> Exited w)"

text \<open>
  \<open>logf\<close>: three \<open>if\<close> statements in a row. Each evaluates \<open>c.Logger()\<close>, and the last one
  \<open>c.Enabled(level)\<close>, in the state it is reached in.
\<close>

definition logf ::
  "Caller \<Rightarrow> ('a, 'h, 's) methods \<Rightarrow> 'h \<Rightarrow> LogLevel \<Rightarrow> string \<Rightarrow> 'a iface list \<Rightarrow>
   ('h, 's) world \<Rightarrow> ('h, 's) world outcome" where
  "logf rt impl dl lvl f v w0 =
     (let format = logf_format rt lvl f in
      and_then
        (if LogLevelPanic \<le>s lvl
         then Panicf_op (impl (Logger dl (fst w0))) format v w0 else Returned w0)
        (\<lambda>w1. and_then
           (if LogLevelFatal \<le>s lvl
            then Fatalf_op (impl (Logger dl (fst w1))) format v w1 else Returned w1)
           (\<lambda>w2. if Enabled (fst w2) lvl
                 then Printf_op (impl (Logger dl (fst w2))) format v w2 else Returned w2)))"

text \<open>\<open>log\<close>: the composed string becomes the first argument, in front of the caller's.\<close>

definition log ::
  "Caller \<Rightarrow> ('a, 'h, 's) methods \<Rightarrow> 'h \<Rightarrow> LogLevel \<Rightarrow> 'a iface list \<Rightarrow>
   ('h, 's) world \<Rightarrow> ('h, 's) world outcome" where
  "log rt impl dl lvl v0 w0 =
     (let format = log_format rt lvl;
          v = [IString format] @ v0 in
      and_then
        (if LogLevelPanic \<le>s lvl
         then Panic_op (impl (Logger dl (fst w0))) v w0 else Returned w0)
        (\<lambda>w1. and_then
           (if LogLevelFatal \<le>s lvl
            then Fatal_op (impl (Logger dl (fst w1))) v w1 else Returned w1)
           (\<lambda>w2. if Enabled (fst w2) lvl
                 then Print_op (impl (Logger dl (fst w2))) v w2 else Returned w2)))"

text \<open>The fourteen per-level methods, in the order of the source.\<close>

definition Debugf where "Debugf rt impl dl format v w = logf rt impl dl LogLevelDebug format v w"
definition Debug where "Debug rt impl dl v w = log rt impl dl LogLevelDebug v w"

definition Tracef where "Tracef rt impl dl format v w = logf rt impl dl LogLevelTrace format v w"
definition Trace where "Trace rt impl dl v w = log rt impl dl LogLevelDebug v w"

definition Infof where "Infof rt impl dl format v w = logf rt impl dl LogLevelInfo format v w"
definition Info where "Info rt impl dl v w = log rt impl dl LogLevelInfo v w"

definition Warnf where "Warnf rt impl dl format v w = logf rt impl dl LogLevelWarn format v w"
definition Warn where "Warn rt impl dl v w = log rt impl dl LogLevelWarn v w"

definition Errorf where "Errorf rt impl dl format v w = logf rt impl dl LogLevelError format v w"
definition Error where "Error rt impl dl v w = log rt impl dl LogLevelError v w"

definition Fatalf where "Fatalf rt impl dl format v w = logf rt impl dl LogLevelFatal format v w"
definition Fatal where "Fatal rt impl dl v w = log rt impl dl LogLevelFatal v w"

definition Panicf where "Panicf rt impl dl format v w = logf rt impl dl LogLevelPanic format v w"
definition Panic where "Panic rt impl dl v w = log rt impl dl LogLevelPanic v w"


section \<open>Start-up (lines 224-233)\<close>

text \<open>
  The loop \<open>for k := range logLevels\<close> visits the keys of the map in an order Go leaves
  open; \<open>ks\<close> is the order of one run. The body sets the level at the first key whose
  name equals the variable's value and returns.
\<close>

fun init_range ::
  "LogLevel list \<Rightarrow> string \<Rightarrow> 'h loggingCollector \<Rightarrow> 'h loggingCollector" where
  "init_range [] logLevel c = c"
| "init_range (k # ks) logLevel c =
     (if logLevels_index k = logLevel then SetLevel k c else init_range ks logLevel c)"

text \<open>
  \<open>init\<close>: \<open>getenv\<close> is the value of \<open>os.Getenv("UPPER_DB_LOG")\<close>, the empty string
  when the variable is not set; \<open>c\<close> is the collector \<open>Log()\<close> returns.
\<close>

definition init ::
  "LogLevel list \<Rightarrow> string \<Rightarrow> 'h loggingCollector \<Rightarrow> 'h loggingCollector" where
  "init ks getenv c = (if getenv \<noteq> [] then init_range ks getenv c else c)"


section \<open>Backends\<close>

text \<open>
  A backend that only writes to its sink is given by six operations on the sink's state
  \<open>'s\<close>. Run in the whole state, such an operation changes the sink part and leaves the
  collector as it is. A backend of this kind serves as its own reference: \<open>sink_only\<close>
  gives its methods.
\<close>

definition on_sink :: "('s \<Rightarrow> 's outcome) \<Rightarrow> ('h, 's) world \<Rightarrow> ('h, 's) world outcome" where
  "on_sink opn w =
     (case opn (snd w) of
        Returned s \<Rightarrow> Returned (fst w, s)
      | Panicked s \<Rightarrow> Panicked (fst w, s)
      | Exited s \<Rightarrow> Exited (fst w, s))"

definition sink_only :: "('a, 's) Logger \<Rightarrow> ('a, ('h, 's) world) Logger" where
  "sink_only b =
     \<lparr>Fatal_op = (\<lambda>v. on_sink (Fatal_op b v)),
      Fatalf_op = (\<lambda>f v. on_sink (Fatalf_op b f v)),
      Print_op = (\<lambda>v. on_sink (Print_op b v)),
      Printf_op = (\<lambda>f v. on_sink (Printf_op b f v)),
      Panic_op = (\<lambda>v. on_sink (Panic_op b v)),
      Panicf_op = (\<lambda>f v. on_sink (Panicf_op b f v))\<rparr>"

text \<open>
  A backend that reaches the collector: each of its operations calls
  \<open>Log().SetLevel(t)\<close> and \<open>Log().SetLogger(lg)\<close>, writes nothing, and returns.
\<close>

definition reconfiguring :: "LogLevel \<Rightarrow> 'h option \<Rightarrow> ('a, ('h, 's) world) Logger" where
  "reconfiguring t lg =
     \<lparr>Fatal_op = (\<lambda>v w. Returned (SetLogger lg (SetLevel t (fst w)), snd w)),
      Fatalf_op = (\<lambda>f v w. Returned (SetLogger lg (SetLevel t (fst w)), snd w)),
      Print_op = (\<lambda>v w. Returned (SetLogger lg (SetLevel t (fst w)), snd w)),
      Printf_op = (\<lambda>f v w. Returned (SetLogger lg (SetLevel t (fst w)), snd w)),
      Panic_op = (\<lambda>v w. Returned (SetLogger lg (SetLevel t (fst w)), snd w)),
      Panicf_op = (\<lambda>f v w. Returned (SetLogger lg (SetLevel t (fst w)), snd w))\<rparr>"

text \<open>A backend all of whose operations return.\<close>

definition returning :: "('a, unit) Logger" where
  "returning =
     \<lparr>Fatal_op = (\<lambda>v. Returned), Fatalf_op = (\<lambda>f v. Returned),
      Print_op = (\<lambda>v. Returned), Printf_op = (\<lambda>f v. Returned),
      Panic_op = (\<lambda>v. Returned), Panicf_op = (\<lambda>f v. Returned)\<rparr>"

text \<open>
  A backend that behaves as the standard library's \<open>log.Logger\<close> does, and as the
  interface expects: printing returns, the fatal operations end the process, the panic
  operations raise a panic.
\<close>

definition std_logger :: "('a, unit) Logger" where
  "std_logger =
     \<lparr>Fatal_op = (\<lambda>v. Exited), Fatalf_op = (\<lambda>f v. Exited),
      Print_op = (\<lambda>v. Returned), Printf_op = (\<lambda>f v. Returned),
      Panic_op = (\<lambda>v. Panicked), Panicf_op = (\<lambda>f v. Panicked)\<rparr>"


section \<open>Observing a backend\<close>

text \<open>
  To count invocations, a backend is wrapped so that every operation first notes the call,
  with its arguments, at the end of a list kept beside the backend's own state, and then
  does what the wrapped backend does. The call is noted whether or not the operation
  returns.
\<close>

datatype 'a call =
    CFatal "'a iface list"
  | CFatalf string "'a iface list"
  | CPrint "'a iface list"
  | CPrintf string "'a iface list"
  | CPanic "'a iface list"
  | CPanicf string "'a iface list"

definition noting ::
  "'a call \<Rightarrow> ('s \<Rightarrow> 's outcome) \<Rightarrow> 'a call list \<times> 's \<Rightarrow> ('a call list \<times> 's) outcome" where
  "noting e opn ts =
     (case opn (snd ts) of
        Returned s \<Rightarrow> Returned (fst ts @ [e], s)
      | Panicked s \<Rightarrow> Panicked (fst ts @ [e], s)
      | Exited s \<Rightarrow> Exited (fst ts @ [e], s))"

definition traced :: "('a, 's) Logger \<Rightarrow> ('a, 'a call list \<times> 's) Logger" where
  "traced b =
     \<lparr>Fatal_op = (\<lambda>v. noting (CFatal v) (Fatal_op b v)),
      Fatalf_op = (\<lambda>f v. noting (CFatalf f v) (Fatalf_op b f v)),
      Print_op = (\<lambda>v. noting (CPrint v) (Print_op b v)),
      Printf_op = (\<lambda>f v. noting (CPrintf f v) (Printf_op b f v)),
      Panic_op = (\<lambda>v. noting (CPanic v) (Panic_op b v)),
      Panicf_op = (\<lambda>f v. noting (CPanicf f v) (Panicf_op b f v))\<rparr>"

text \<open>The state a call ended in, however it ended, and the calls noted in it.\<close>

fun final :: "'w outcome \<Rightarrow> 'w" where
  "final (Returned w) = w"
| "final (Panicked w) = w"
| "final (Exited w) = w"

fun returned :: "'w outcome \<Rightarrow> bool" where
  "returned (Returned w) = True"
| "returned (Panicked w) = False"
| "returned (Exited w) = False"

definition calls :: "('h, 'a call list \<times> 's) world outcome \<Rightarrow> 'a call list" where
  "calls r = fst (snd (final r))"

fun is_print :: "'a call \<Rightarrow> bool" where
  "is_print (CPrint v) = True"
| "is_print (CPrintf f v) = True"
| "is_print (CFatal v) = False"
| "is_print (CFatalf f v) = False"
| "is_print (CPanic v) = False"
| "is_print (CPanicf f v) = False"


section \<open>Levels and gating\<close>

lemmas LogLevel_defs =
  LogLevelTrace_def LogLevelDebug_def LogLevelInfo_def LogLevelWarn_def
  LogLevelError_def LogLevelFatal_def LogLevelPanic_def

text \<open>
  C4, as amended. The seven levels have strictly ascending numeric values in the order
  Trace, Debug, Info, Warn, Error, Fatal, Panic: they are -1, 1, 2, 3, 4, 5 and 6. Trace
  is below Debug. Debug has the value 1, not 0: the value 0 lies strictly between Trace
  and Debug and has no display name. Under the default threshold, which is Warn, neither
  Trace nor Debug is enabled.
\<close>

theorem C4_level_values:
  "sint LogLevelTrace = - 1 \<and> sint LogLevelDebug = 1 \<and> sint LogLevelInfo = 2 \<and>
   sint LogLevelWarn = 3 \<and> sint LogLevelError = 4 \<and> sint LogLevelFatal = 5 \<and>
   sint LogLevelPanic = 6 \<and>
   LogLevelTrace <s LogLevelDebug \<and> LogLevelDebug <s LogLevelInfo \<and>
   LogLevelInfo <s LogLevelWarn \<and> LogLevelWarn <s LogLevelError \<and>
   LogLevelError <s LogLevelFatal \<and> LogLevelFatal <s LogLevelPanic \<and>
   LogLevelTrace <s 0 \<and> 0 <s LogLevelDebug \<and> logLevels 0 = None \<and>
   level (defaultLoggingCollector dl) = LogLevelWarn \<and>
   \<not> Enabled (defaultLoggingCollector dl) LogLevelTrace \<and>
   \<not> Enabled (defaultLoggingCollector dl) LogLevelDebug"
  by (simp add: LogLevel_defs logLevels_def defaultLoggingCollector_def defaultLogLevel_def
      Enabled_def word_sle_eq word_sless_alt)

text \<open>
  C4, as the specification states it, says that Debug is the zero-valued level. It is not:
  the zero value of \<open>LogLevel\<close> is different from \<open>LogLevelDebug\<close>.
\<close>

theorem C4_debug_is_not_zero:
  "LogLevelDebug \<noteq> (0 :: LogLevel) \<and> sint LogLevelDebug \<noteq> 0"
  by (simp add: LogLevelDebug_def)

text \<open>
  C1. For every level and every threshold, \<open>Enabled\<close> holds exactly when the level is at
  least the threshold in the signed order of \<open>int8\<close>. \<open>Enabled\<close> only reads the
  collector: its result is a truth value computed from the level field, so the collector
  is the same after the call. After \<open>SetLevel T\<close> the answer is computed from \<open>T\<close>,
  whatever the threshold was before.
\<close>

theorem C1_enabled_iff_threshold:
  "(Enabled c l \<longleftrightarrow> sint (Level c) \<le> sint l) \<and>
   (Enabled (SetLevel t c) l \<longleftrightarrow> sint t \<le> sint l) \<and>
   (Enabled (SetLevel t2 (SetLevel t1 c)) l \<longleftrightarrow> sint t2 \<le> sint l) \<and>
   Level (SetLevel t c) = t"
  by (simp add: Enabled_def SetLevel_def Level_def word_sle_eq)


section \<open>Start-up\<close>

lemma dom_logLevels:
  "dom logLevels = {LogLevelTrace, LogLevelDebug, LogLevelInfo, LogLevelWarn,
                    LogLevelError, LogLevelFatal, LogLevelPanic}"
  by (auto simp: logLevels_def)

lemma logLevels_index_simps [simp]:
  "logLevels_index LogLevelTrace = ''TRACE''"
  "logLevels_index LogLevelDebug = ''DEBUG''"
  "logLevels_index LogLevelInfo = ''INFO''"
  "logLevels_index LogLevelWarn = ''WARNING''"
  "logLevels_index LogLevelError = ''ERROR''"
  "logLevels_index LogLevelFatal = ''FATAL''"
  "logLevels_index LogLevelPanic = ''PANIC''"
  by (simp_all add: logLevels_index_def logLevels_def LogLevel_defs)

text \<open>The loop stops at the first key of the visiting order whose name matches.\<close>

lemma init_range_find:
  "init_range ks e c =
     (case find (\<lambda>k. logLevels_index k = e) ks of None \<Rightarrow> c | Some k \<Rightarrow> SetLevel k c)"
  by (induction ks) simp_all

text \<open>The names are pairwise different, so the order of the visit does not matter.\<close>

lemma find_name:
  assumes ks: "set ks = dom logLevels"
  shows "find (\<lambda>k. logLevels_index k = e) ks =
     (if e = ''TRACE'' then Some LogLevelTrace
      else if e = ''DEBUG'' then Some LogLevelDebug
      else if e = ''INFO'' then Some LogLevelInfo
      else if e = ''WARNING'' then Some LogLevelWarn
      else if e = ''ERROR'' then Some LogLevelError
      else if e = ''FATAL'' then Some LogLevelFatal
      else if e = ''PANIC'' then Some LogLevelPanic
      else None)"
proof (cases "find (\<lambda>k. logLevels_index k = e) ks")
  case None
  then have "\<forall>k \<in> set ks. logLevels_index k \<noteq> e"
    by (simp add: find_None_iff)
  then have "\<forall>k \<in> {LogLevelTrace, LogLevelDebug, LogLevelInfo, LogLevelWarn,
                    LogLevelError, LogLevelFatal, LogLevelPanic}. logLevels_index k \<noteq> e"
    by (simp only: ks dom_logLevels)
  with None show ?thesis by auto
next
  case (Some k)
  then have "k \<in> set ks" and e: "logLevels_index k = e"
    by (auto simp: find_Some_iff)
  then have "k \<in> {LogLevelTrace, LogLevelDebug, LogLevelInfo, LogLevelWarn,
                    LogLevelError, LogLevelFatal, LogLevelPanic}"
    by (simp only: ks dom_logLevels)
  with e Some show ?thesis by auto
qed

text \<open>
  C6. Whatever order the loop visits the seven keys in: when the variable holds one of the
  names TRACE, DEBUG, INFO, WARNING, ERROR, FATAL, PANIC, the default collector's
  threshold after \<open>init\<close> is the level of that name; when it is unset or empty, or holds
  anything else, the threshold is still the default, Warn. The backend field is not
  touched.
\<close>

theorem C6_init_from_environment:
  assumes "set ks = dom logLevels"
  shows "level (init ks getenv (defaultLoggingCollector dl)) =
     (if getenv = ''TRACE'' then LogLevelTrace
      else if getenv = ''DEBUG'' then LogLevelDebug
      else if getenv = ''INFO'' then LogLevelInfo
      else if getenv = ''WARNING'' then LogLevelWarn
      else if getenv = ''ERROR'' then LogLevelError
      else if getenv = ''FATAL'' then LogLevelFatal
      else if getenv = ''PANIC'' then LogLevelPanic
      else LogLevelWarn) \<and>
     logger (init ks getenv (defaultLoggingCollector dl)) = Some dl"
  by (simp add: init_def init_range_find find_name [OF assms] SetLevel_def
      defaultLoggingCollector_def defaultLogLevel_def)

text \<open>
  C6 at a concrete input: one visiting order of the seven keys, the variable set to
  ERROR, then to an unrecognised value, then unset.
\<close>

theorem C6_init_from_environment_witness:
  "set [LogLevelPanic, LogLevelInfo, LogLevelTrace, LogLevelError, LogLevelWarn,
        LogLevelDebug, LogLevelFatal] = dom logLevels \<and>
   level (init [LogLevelPanic, LogLevelInfo, LogLevelTrace, LogLevelError, LogLevelWarn,
                LogLevelDebug, LogLevelFatal] ''ERROR''
            (defaultLoggingCollector (returning :: (unit, unit) Logger))) = LogLevelError \<and>
   level (init [LogLevelPanic, LogLevelInfo, LogLevelTrace, LogLevelError, LogLevelWarn,
                LogLevelDebug, LogLevelFatal] ''error''
            (defaultLoggingCollector (returning :: (unit, unit) Logger))) = LogLevelWarn \<and>
   level (init [LogLevelPanic, LogLevelInfo, LogLevelTrace, LogLevelError, LogLevelWarn,
                LogLevelDebug, LogLevelFatal] []
            (defaultLoggingCollector (returning :: (unit, unit) Logger))) = LogLevelWarn"
proof -
  have h: "set [LogLevelPanic, LogLevelInfo, LogLevelTrace, LogLevelError, LogLevelWarn,
        LogLevelDebug, LogLevelFatal] = dom logLevels"
    by (auto simp: dom_logLevels)
  show ?thesis
    using h
      C6_init_from_environment [OF h, of "''ERROR''" "returning :: (unit, unit) Logger"]
      C6_init_from_environment [OF h, of "''error''" "returning :: (unit, unit) Logger"]
      C6_init_from_environment [OF h, of "[]" "returning :: (unit, unit) Logger"]
    by simp
qed


section \<open>Dispatch: auxiliary facts\<close>

lemma returned_iff: "returned r \<longleftrightarrow> (\<exists>w. r = Returned w)"
  by (cases r) simp_all

lemma and_then_simps [simp]:
  "and_then (Returned w) k = k w"
  "and_then (Panicked w) k = Panicked w"
  "and_then (Exited w) k = Exited w"
  by (simp_all add: and_then_def)

lemma Logger_Some [simp]: "Logger dl \<lparr>level = t, logger = Some b\<rparr> = b"
  by (simp add: Logger_def)

lemma traced_sel [simp]:
  "Fatal_op (traced b) = (\<lambda>v. noting (CFatal v) (Fatal_op b v))"
  "Fatalf_op (traced b) = (\<lambda>f v. noting (CFatalf f v) (Fatalf_op b f v))"
  "Print_op (traced b) = (\<lambda>v. noting (CPrint v) (Print_op b v))"
  "Printf_op (traced b) = (\<lambda>f v. noting (CPrintf f v) (Printf_op b f v))"
  "Panic_op (traced b) = (\<lambda>v. noting (CPanic v) (Panic_op b v))"
  "Panicf_op (traced b) = (\<lambda>f v. noting (CPanicf f v) (Panicf_op b f v))"
  by (simp_all add: traced_def)

lemma level_cmp [simp]:
  "\<not> LogLevelPanic \<le>s LogLevelFatal" "LogLevelFatal \<le>s LogLevelFatal"
  "LogLevelPanic \<le>s LogLevelPanic" "LogLevelFatal \<le>s LogLevelPanic"
  by (simp_all add: LogLevel_defs word_sle_eq)

lemma below_fatal:
  "l <s LogLevelFatal \<Longrightarrow> \<not> LogLevelFatal \<le>s l \<and> \<not> LogLevelPanic \<le>s l"
  by (simp add: LogLevel_defs word_sle_eq word_sless_alt)

subsection \<open>Backends that only write to their sink\<close>

lemma sink_only_sel [simp]:
  "Fatal_op (sink_only b) = (\<lambda>v. on_sink (Fatal_op b v))"
  "Fatalf_op (sink_only b) = (\<lambda>f v. on_sink (Fatalf_op b f v))"
  "Print_op (sink_only b) = (\<lambda>v. on_sink (Print_op b v))"
  "Printf_op (sink_only b) = (\<lambda>f v. on_sink (Printf_op b f v))"
  "Panic_op (sink_only b) = (\<lambda>v. on_sink (Panic_op b v))"
  "Panicf_op (sink_only b) = (\<lambda>f v. on_sink (Panicf_op b f v))"
  by (simp_all add: sink_only_def)

lemma final_on_sink [simp]: "fst (final (on_sink opn w)) = fst w"
  by (cases "opn (snd w)") (simp_all add: on_sink_def)

subsection \<open>When the collector is carried through a call unchanged\<close>

lemma final_and_then:
  "(\<And>w. fst (final (k w)) = fst w) \<Longrightarrow> fst (final (and_then r k)) = fst (final r)"
  by (cases r) simp_all

text \<open>
  The dispatch functions write neither field themselves: the collector changes during a
  call only if an operation of the backend changes it.
\<close>

lemma frame_logf:
  assumes "\<And>h f v w. fst (final (Panicf_op (impl h) f v w)) = fst w"
    and "\<And>h f v w. fst (final (Fatalf_op (impl h) f v w)) = fst w"
    and "\<And>h f v w. fst (final (Printf_op (impl h) f v w)) = fst w"
  shows "fst (final (logf rt impl dl l f v w)) = fst w"
  unfolding logf_def Let_def
  by (simp add: final_and_then assms)

lemma frame_log:
  assumes "\<And>h v w. fst (final (Panic_op (impl h) v w)) = fst w"
    and "\<And>h v w. fst (final (Fatal_op (impl h) v w)) = fst w"
    and "\<And>h v w. fst (final (Print_op (impl h) v w)) = fst w"
  shows "fst (final (log rt impl dl l v w)) = fst w"
  unfolding log_def Let_def
  by (simp add: final_and_then assms)

lemma frame_logf_sink_only: "fst (final (logf rt sink_only dl l f v w)) = fst w"
  by (rule frame_logf) simp_all

lemma frame_log_sink_only: "fst (final (log rt sink_only dl l v w)) = fst w"
  by (rule frame_log) simp_all

subsection \<open>What a call does to the sink\<close>

lemma sink_on_sink [simp]: "map_outcome snd (on_sink opn w) = opn (snd w)"
  by (cases "opn (snd w)") (simp_all add: on_sink_def)

lemma sink_and_then:
  assumes "map_outcome snd r = r'"
    and "fst (final r) = c"
    and "\<And>w. fst w = c \<Longrightarrow> map_outcome snd (k w) = k' (snd w)"
  shows "map_outcome snd (and_then r k) = and_then r' k'"
  using assms by (cases r) auto

lemma sink_logf:
  "map_outcome snd (logf rt sink_only dl l f v (c, ts)) =
     and_then
       (if LogLevelPanic \<le>s l
        then Panicf_op (Logger dl c) (logf_format rt l f) v ts else Returned ts)
       (\<lambda>ts1. and_then
          (if LogLevelFatal \<le>s l
           then Fatalf_op (Logger dl c) (logf_format rt l f) v ts1 else Returned ts1)
          (\<lambda>ts2. if Enabled c l
                 then Printf_op (Logger dl c) (logf_format rt l f) v ts2 else Returned ts2))"
  unfolding logf_def Let_def
  apply (rule sink_and_then [where c = c])
    apply simp
   apply simp
  apply (rule sink_and_then [where c = c])
    apply simp_all
  done

lemma sink_log:
  "map_outcome snd (log rt sink_only dl l v (c, ts)) =
     and_then
       (if LogLevelPanic \<le>s l
        then Panic_op (Logger dl c) (IString (log_format rt l) # v) ts else Returned ts)
       (\<lambda>ts1. and_then
          (if LogLevelFatal \<le>s l
           then Fatal_op (Logger dl c) (IString (log_format rt l) # v) ts1 else Returned ts1)
          (\<lambda>ts2. if Enabled c l
                 then Print_op (Logger dl c) (IString (log_format rt l) # v) ts2
                 else Returned ts2))"
  unfolding log_def Let_def
  apply (rule sink_and_then [where c = c])
    apply simp
   apply simp
  apply (rule sink_and_then [where c = c])
    apply simp_all
  done

subsection \<open>The calls a wrapped backend has noted\<close>

lemma calls_sink: "calls r = fst (final (map_outcome snd r))"
  by (cases r) (simp_all add: calls_def)

lemma final_noting [simp]: "fst (final (noting e opn ts)) = fst ts @ [e]"
  by (cases "opn (snd ts)") (simp_all add: noting_def)

lemma noting_Returned [simp]:
  "opn (snd ts) = Returned s' \<Longrightarrow> noting e opn ts = Returned (fst ts @ [e], s')"
  by (simp add: noting_def)

lemma obs_and_then_cong:
  "(\<And>w. g (k w) = g (k' w)) \<Longrightarrow> g (and_then r k) = g (and_then r k')"
  by (cases r) simp_all

lemma obs_and_then_skip:
  "(\<And>w. g (k w) = g (Returned w)) \<Longrightarrow> g (and_then r k) = g r"
  by (cases r) simp_all

text \<open>With panic and fatal operations that return, every check is reached.\<close>

lemma calls_logf_returning:
  fixes b :: "('a, 's) Logger"
  assumes "\<forall>f v s. returned (Panicf_op b f v s) \<and> returned (Fatalf_op b f v s)"
  shows "calls (logf rt sink_only dl l f v (\<lparr>level = t, logger = Some (traced b)\<rparr>, (tr, s))) =
     tr @ (if LogLevelPanic \<le>s l then [CPanicf (logf_format rt l f) v] else [])
        @ (if LogLevelFatal \<le>s l then [CFatalf (logf_format rt l f) v] else [])
        @ (if Enabled \<lparr>level = t, logger = Some (traced b)\<rparr> l
           then [CPrintf (logf_format rt l f) v] else [])"
proof -
  from assms have "\<forall>f v s. \<exists>w. Panicf_op b f v s = Returned w"
    and "\<forall>f v s. \<exists>w. Fatalf_op b f v s = Returned w"
    by (simp_all add: returned_iff)
  then obtain pf ff where
    "\<And>f v s. Panicf_op b f v s = Returned (pf f v s)"
    "\<And>f v s. Fatalf_op b f v s = Returned (ff f v s)"
    by metis
  then show ?thesis
    by (simp add: calls_sink sink_logf)
qed

lemma calls_log_returning:
  fixes b :: "('a, 's) Logger"
  assumes "\<forall>v s. returned (Panic_op b v s) \<and> returned (Fatal_op b v s)"
  shows "calls (log rt sink_only dl l v (\<lparr>level = t, logger = Some (traced b)\<rparr>, (tr, s))) =
     tr @ (if LogLevelPanic \<le>s l then [CPanic (IString (log_format rt l) # v)] else [])
        @ (if LogLevelFatal \<le>s l then [CFatal (IString (log_format rt l) # v)] else [])
        @ (if Enabled \<lparr>level = t, logger = Some (traced b)\<rparr> l
           then [CPrint (IString (log_format rt l) # v)] else [])"
proof -
  from assms have "\<forall>v s. \<exists>w. Panic_op b v s = Returned w"
    and "\<forall>v s. \<exists>w. Fatal_op b v s = Returned w"
    by (simp_all add: returned_iff)
  then obtain p fa where
    "\<And>v s. Panic_op b v s = Returned (p v s)"
    "\<And>v s. Fatal_op b v s = Returned (fa v s)"
    by metis
  then show ?thesis
    by (simp add: calls_sink sink_log)
qed

text \<open>Below Fatal only the last check can fire.\<close>

lemma calls_logf_below_fatal:
  fixes b :: "('a, 's) Logger"
  assumes "l <s LogLevelFatal"
  shows "calls (logf rt sink_only dl l f v (\<lparr>level = t, logger = Some (traced b)\<rparr>, (tr, s))) =
     tr @ (if Enabled \<lparr>level = t, logger = Some (traced b)\<rparr> l
           then [CPrintf (logf_format rt l f) v] else [])"
  using below_fatal [OF assms] by (simp add: calls_sink sink_logf)

lemma calls_log_below_fatal:
  fixes b :: "('a, 's) Logger"
  assumes "l <s LogLevelFatal"
  shows "calls (log rt sink_only dl l v (\<lparr>level = t, logger = Some (traced b)\<rparr>, (tr, s))) =
     tr @ (if Enabled \<lparr>level = t, logger = Some (traced b)\<rparr> l
           then [CPrint (IString (log_format rt l) # v)] else [])"
  using below_fatal [OF assms] by (simp add: calls_sink sink_log)

text \<open>Below the threshold no print operation is invoked, whatever the backend does.\<close>

lemma no_print_logf:
  fixes b :: "('a, 's) Logger"
  assumes "\<not> Enabled \<lparr>level = t, logger = Some (traced b)\<rparr> l"
  shows "filter is_print
           (calls (logf rt sink_only dl l f v (\<lparr>level = t, logger = Some (traced b)\<rparr>, (tr, s)))) =
         filter is_print tr"
  unfolding calls_sink sink_logf Logger_Some
  apply (subst obs_and_then_skip [where g = "\<lambda>r. filter is_print (fst (final r))"])
   apply (subst obs_and_then_skip [where g = "\<lambda>r. filter is_print (fst (final r))"])
  using assms apply simp_all
  done

lemma no_print_log:
  fixes b :: "('a, 's) Logger"
  assumes "\<not> Enabled \<lparr>level = t, logger = Some (traced b)\<rparr> l"
  shows "filter is_print
           (calls (log rt sink_only dl l v (\<lparr>level = t, logger = Some (traced b)\<rparr>, (tr, s)))) =
         filter is_print tr"
  unfolding calls_sink sink_log Logger_Some
  apply (subst obs_and_then_skip [where g = "\<lambda>r. filter is_print (fst (final r))"])
   apply (subst obs_and_then_skip [where g = "\<lambda>r. filter is_print (fst (final r))"])
  using assms apply simp_all
  done

text \<open>The operations other than print that are invoked do not depend on the threshold.\<close>

lemma other_calls_logf:
  fixes b :: "('a, 's) Logger"
  shows
  "filter (\<lambda>e. \<not> is_print e)
      (calls (logf rt sink_only dl l f v (\<lparr>level = t, logger = Some (traced b)\<rparr>, (tr, s)))) =
   filter (\<lambda>e. \<not> is_print e)
      (calls (logf rt sink_only dl l f v (\<lparr>level = t', logger = Some (traced b)\<rparr>, (tr, s))))"
  unfolding calls_sink sink_logf Logger_Some
  apply (rule obs_and_then_cong [where g = "\<lambda>r. filter (\<lambda>e. \<not> is_print e) (fst (final r))"])
  apply (rule obs_and_then_cong [where g = "\<lambda>r. filter (\<lambda>e. \<not> is_print e) (fst (final r))"])
  apply simp
  done

lemma other_calls_log:
  fixes b :: "('a, 's) Logger"
  shows
  "filter (\<lambda>e. \<not> is_print e)
      (calls (log rt sink_only dl l v (\<lparr>level = t, logger = Some (traced b)\<rparr>, (tr, s)))) =
   filter (\<lambda>e. \<not> is_print e)
      (calls (log rt sink_only dl l v (\<lparr>level = t', logger = Some (traced b)\<rparr>, (tr, s))))"
  unfolding calls_sink sink_log Logger_Some
  apply (rule obs_and_then_cong [where g = "\<lambda>r. filter (\<lambda>e. \<not> is_print e) (fst (final r))"])
  apply (rule obs_and_then_cong [where g = "\<lambda>r. filter (\<lambda>e. \<not> is_print e) (fst (final r))"])
  apply simp
  done

subsection \<open>The composed string\<close>

lemma logf_format_parts:
  "prefix ''upper/db: '' (logf_format rt l f) \<and> suffix f (logf_format rt l f) \<and>
   sublist (logLevels_index l) (logf_format rt l f)"
proof (cases "rt 2")
  case None
  have "sublist (logLevels_index l) (''upper/db: '' @ logLevels_index l @ ([CHR 0x0A] @ f))"
    by (rule sublist_appendI)
  with None show ?thesis by (simp add: logf_format_def suffix_def)
next
  case (Some fl)
  obtain fname ln where fl: "fl = (fname, ln)" by (cases fl)
  have "sublist (logLevels_index l)
          ((''upper/db: '' @ ''log_level='') @ logLevels_index l @
             ('' file='' @ fname @ '':'' @ fmt_d ln @ [CHR 0x0A] @ f))"
    by (rule sublist_appendI)
  moreover have "suffix f
          (''upper/db: '' @ ''log_level='' @ logLevels_index l @
             '' file='' @ fname @ '':'' @ fmt_d ln @ [CHR 0x0A] @ f)"
    unfolding suffix_def by (rule exI [of _ "''upper/db: '' @ ''log_level='' @ logLevels_index l @
             '' file='' @ fname @ '':'' @ fmt_d ln @ [CHR 0x0A]"]) simp
  ultimately show ?thesis using Some fl by (simp add: logf_format_def)
qed

lemma log_format_parts:
  "prefix ''upper/db: '' (log_format rt l) \<and> sublist (logLevels_index l) (log_format rt l)"
proof (cases "rt 2")
  case None
  have "sublist (logLevels_index l) (''upper/db: '' @ logLevels_index l @ [CHR 0x0A])"
    by (rule sublist_appendI)
  with None show ?thesis by (simp add: log_format_def)
next
  case (Some fl)
  obtain fname ln where fl: "fl = (fname, ln)" by (cases fl)
  have "sublist (logLevels_index l)
          ((''upper/db: '' @ ''log_level='') @ logLevels_index l @
             ('' file='' @ fname @ '':'' @ fmt_d ln @ [CHR 0x0A]))"
    by (rule sublist_appendI)
  then show ?thesis using Some fl by (simp add: log_format_def)
qed


section \<open>Dispatch: the claims\<close>

text \<open>
  C2. Both dispatch paths make three independent checks in the order panic, fatal, print.
  With a backend whose panic and fatal operations return, the operations invoked by a call
  at level \<open>l\<close> are, in this order: the panic operation if \<open>l \<ge> Panic\<close>, the fatal
  operation if \<open>l \<ge> Fatal\<close>, the print operation if \<open>Enabled l\<close>; each at most
  once, each with the composed message. So a Panic-level call invokes panic, then fatal,
  then (when enabled) print, and a Fatal-level call invokes fatal, then (when enabled)
  print.
\<close>

theorem C2_dispatch_order:
  fixes b :: "('a, 's) Logger"
  assumes "\<forall>f v s. returned (Panicf_op b f v s) \<and> returned (Panic_op b v s) \<and>
                   returned (Fatalf_op b f v s) \<and> returned (Fatal_op b v s)"
  shows
  "calls (logf rt sink_only dl l f v (\<lparr>level = t, logger = Some (traced b)\<rparr>, ([], s))) =
       (if LogLevelPanic \<le>s l then [CPanicf (logf_format rt l f) v] else [])
     @ (if LogLevelFatal \<le>s l then [CFatalf (logf_format rt l f) v] else [])
     @ (if Enabled \<lparr>level = t, logger = Some (traced b)\<rparr> l
        then [CPrintf (logf_format rt l f) v] else []) \<and>
   calls (log rt sink_only dl l v (\<lparr>level = t, logger = Some (traced b)\<rparr>, ([], s))) =
       (if LogLevelPanic \<le>s l then [CPanic (IString (log_format rt l) # v)] else [])
     @ (if LogLevelFatal \<le>s l then [CFatal (IString (log_format rt l) # v)] else [])
     @ (if Enabled \<lparr>level = t, logger = Some (traced b)\<rparr> l
        then [CPrint (IString (log_format rt l) # v)] else []) \<and>
   calls (Panicf rt sink_only dl f v (\<lparr>level = t, logger = Some (traced b)\<rparr>, ([], s))) =
       [CPanicf (logf_format rt LogLevelPanic f) v, CFatalf (logf_format rt LogLevelPanic f) v]
     @ (if Enabled \<lparr>level = t, logger = Some (traced b)\<rparr> LogLevelPanic
        then [CPrintf (logf_format rt LogLevelPanic f) v] else []) \<and>
   calls (Panic rt sink_only dl v (\<lparr>level = t, logger = Some (traced b)\<rparr>, ([], s))) =
       [CPanic (IString (log_format rt LogLevelPanic) # v),
        CFatal (IString (log_format rt LogLevelPanic) # v)]
     @ (if Enabled \<lparr>level = t, logger = Some (traced b)\<rparr> LogLevelPanic
        then [CPrint (IString (log_format rt LogLevelPanic) # v)] else []) \<and>
   calls (Fatalf rt sink_only dl f v (\<lparr>level = t, logger = Some (traced b)\<rparr>, ([], s))) =
       [CFatalf (logf_format rt LogLevelFatal f) v]
     @ (if Enabled \<lparr>level = t, logger = Some (traced b)\<rparr> LogLevelFatal
        then [CPrintf (logf_format rt LogLevelFatal f) v] else []) \<and>
   calls (Fatal rt sink_only dl v (\<lparr>level = t, logger = Some (traced b)\<rparr>, ([], s))) =
       [CFatal (IString (log_format rt LogLevelFatal) # v)]
     @ (if Enabled \<lparr>level = t, logger = Some (traced b)\<rparr> LogLevelFatal
        then [CPrint (IString (log_format rt LogLevelFatal) # v)] else [])"
proof -
  from assms have rf: "\<forall>f v s. returned (Panicf_op b f v s) \<and> returned (Fatalf_op b f v s)"
    and rp: "\<forall>v s. returned (Panic_op b v s) \<and> returned (Fatal_op b v s)"
    by simp_all
  show ?thesis
    by (simp add: calls_logf_returning [OF rf] calls_log_returning [OF rp]
        Panicf_def Panic_def Fatalf_def Fatal_def)
qed

text \<open>
  C2 at a concrete input: a backend all of whose operations return, the threshold at
  Warn, no caller information, a formatted call at Panic level. Three invocations are
  noted: panic, fatal, print.
\<close>

theorem C2_dispatch_order_witness:
  "(\<forall>f v s. returned (Panicf_op (returning :: (unit, unit) Logger) f v s) \<and>
            returned (Panic_op (returning :: (unit, unit) Logger) v s) \<and>
            returned (Fatalf_op (returning :: (unit, unit) Logger) f v s) \<and>
            returned (Fatal_op (returning :: (unit, unit) Logger) v s)) \<and>
   calls (Panicf (\<lambda>n. None) sink_only (traced returning) ''boom'' []
            (\<lparr>level = LogLevelWarn, logger = Some (traced (returning :: (unit, unit) Logger))\<rparr>,
             ([], ()))) =
     [CPanicf (''upper/db: PANIC'' @ [CHR 0x0A] @ ''boom'') [],
      CFatalf (''upper/db: PANIC'' @ [CHR 0x0A] @ ''boom'') [],
      CPrintf (''upper/db: PANIC'' @ [CHR 0x0A] @ ''boom'') []]"
proof -
  have h: "\<forall>f v s. returned (Panicf_op (returning :: (unit, unit) Logger) f v s) \<and>
            returned (Panic_op (returning :: (unit, unit) Logger) v s) \<and>
            returned (Fatalf_op (returning :: (unit, unit) Logger) f v s) \<and>
            returned (Fatal_op (returning :: (unit, unit) Logger) v s)"
    by (simp add: returning_def)
  have en: "Enabled \<lparr>level = LogLevelWarn,
      logger = Some (traced (returning :: (unit, unit) Logger))\<rparr> LogLevelPanic"
    by (simp add: Enabled_def LogLevel_defs word_sle_eq)
  show ?thesis
    using h C2_dispatch_order [OF h, of "\<lambda>n. None" "traced returning" LogLevelPanic
        "''boom''" "[]" LogLevelWarn "()"]
    by (simp add: logf_format_def en)
qed

text \<open>
  C3. The plain method \<open>Trace\<close> dispatches at Debug severity: it is the same call as
  \<open>Debug\<close>, it prints exactly when the threshold is at most Debug, and its message carries
  the name DEBUG. The formatted method \<open>Tracef\<close> dispatches at Trace severity: it prints
  exactly when the threshold is at most Trace, and its message carries the name TRACE. With
  the threshold at Debug the first prints and the second does not.
\<close>

theorem C3_trace_variants_differ:
  fixes b :: "('a, 's) Logger"
  shows
  "Trace rt sink_only dl v w = log rt sink_only dl LogLevelDebug v w \<and>
   Trace rt sink_only dl v w = Debug rt sink_only dl v w \<and>
   Tracef rt sink_only dl f v w = logf rt sink_only dl LogLevelTrace f v w \<and>
   calls (Trace rt sink_only dl v (\<lparr>level = t, logger = Some (traced b)\<rparr>, ([], s))) =
     (if t \<le>s LogLevelDebug then [CPrint (IString (log_format rt LogLevelDebug) # v)] else []) \<and>
   calls (Tracef rt sink_only dl f v (\<lparr>level = t, logger = Some (traced b)\<rparr>, ([], s))) =
     (if t \<le>s LogLevelTrace then [CPrintf (logf_format rt LogLevelTrace f) v] else []) \<and>
   logLevels_index LogLevelDebug = ''DEBUG'' \<and> logLevels_index LogLevelTrace = ''TRACE'' \<and>
   calls (Trace rt sink_only dl v (\<lparr>level = LogLevelDebug, logger = Some (traced b)\<rparr>, ([], s))) =
     [CPrint (IString (log_format rt LogLevelDebug) # v)] \<and>
   calls (Tracef rt sink_only dl f v (\<lparr>level = LogLevelDebug, logger = Some (traced b)\<rparr>, ([], s))) = []"
proof -
  have d: "LogLevelDebug <s LogLevelFatal" and t: "LogLevelTrace <s LogLevelFatal"
    by (simp_all add: LogLevel_defs word_sless_alt)
  have n: "\<not> LogLevelDebug \<le>s LogLevelTrace" "LogLevelDebug \<le>s LogLevelDebug"
    by (simp_all add: LogLevel_defs word_sle_eq)
  show ?thesis
    by (simp add: Trace_def Debug_def Tracef_def calls_log_below_fatal [OF d]
        calls_logf_below_fatal [OF t] Enabled_def n)
qed







text \<open>
  C7. The backend is resolved at every read: after \<open>SetLogger\<close> with a backend and then
  \<open>SetLogger\<close> with \<open>nil\<close>, the field is \<open>nil\<close> and \<open>Logger()\<close> is the default backend
  again, while right after \<open>SetLogger\<close> with a backend \<open>Logger()\<close> is that backend. An
  emit in the state with the field \<open>nil\<close> invokes the operations of the default backend,
  in the order panic, fatal, print, each under its own check: its effect on the sink is
  the effect of exactly these operations, which is also what it does when the default
  backend is set explicitly, so it fails only where the default backend does. With a
  default backend that notes its invocations, the invocations noted are those of the
  emit, whatever backend was set before.
\<close>

theorem C7_backend_resolved_lazily:
  fixes dl b :: "('a, 's) Logger"
    and d :: "('a, 't) Logger"
    and b' :: "('a, 'a call list \<times> 't) Logger"
    and b'' :: "('a, 'a call list \<times> unit) Logger"
  shows
  "Logger dl (SetLogger None (SetLogger (Some b) c)) = dl \<and>
   Logger dl (SetLogger (Some b) c) = b \<and>
   logger (SetLogger None (SetLogger (Some b) c)) = None \<and>
   map_outcome snd (logf rt sink_only dl l f v (SetLogger None (SetLogger (Some b) c), s)) =
     and_then
       (if LogLevelPanic \<le>s l then Panicf_op dl (logf_format rt l f) v s else Returned s)
       (\<lambda>s1. and_then
          (if LogLevelFatal \<le>s l then Fatalf_op dl (logf_format rt l f) v s1 else Returned s1)
          (\<lambda>s2. if level c \<le>s l then Printf_op dl (logf_format rt l f) v s2
                else Returned s2)) \<and>
   map_outcome snd (log rt sink_only dl l v (SetLogger None (SetLogger (Some b) c), s)) =
     and_then
       (if LogLevelPanic \<le>s l then Panic_op dl (IString (log_format rt l) # v) s
        else Returned s)
       (\<lambda>s1. and_then
          (if LogLevelFatal \<le>s l then Fatal_op dl (IString (log_format rt l) # v) s1
           else Returned s1)
          (\<lambda>s2. if level c \<le>s l then Print_op dl (IString (log_format rt l) # v) s2
                else Returned s2)) \<and>
   map_outcome snd (logf rt sink_only dl l f v (SetLogger None (SetLogger (Some b) c), s)) =
     map_outcome snd (logf rt sink_only dl l f v (SetLogger (Some dl) c, s)) \<and>
   map_outcome snd (log rt sink_only dl l v (SetLogger None (SetLogger (Some b) c), s)) =
     map_outcome snd (log rt sink_only dl l v (SetLogger (Some dl) c, s)) \<and>
   calls (Warnf rt sink_only (traced d) f v'
            (SetLogger None (SetLogger (Some b') \<lparr>level = t, logger = x\<rparr>), ([], s'))) =
     (if t \<le>s LogLevelWarn then [CPrintf (logf_format rt LogLevelWarn f) v'] else []) \<and>
   calls (Warn rt sink_only (traced d) v'
            (SetLogger None (SetLogger (Some b') \<lparr>level = t, logger = x\<rparr>), ([], s'))) =
     (if t \<le>s LogLevelWarn then [CPrint (IString (log_format rt LogLevelWarn) # v')] else []) \<and>
   calls (logf rt sink_only (traced returning) l f v'
            (SetLogger None (SetLogger (Some b'') \<lparr>level = t, logger = x'\<rparr>), ([], ()))) =
       (if LogLevelPanic \<le>s l then [CPanicf (logf_format rt l f) v'] else [])
     @ (if LogLevelFatal \<le>s l then [CFatalf (logf_format rt l f) v'] else [])
     @ (if t \<le>s l then [CPrintf (logf_format rt l f) v'] else []) \<and>
   calls (log rt sink_only (traced returning) l v'
            (SetLogger None (SetLogger (Some b'') \<lparr>level = t, logger = x'\<rparr>), ([], ()))) =
       (if LogLevelPanic \<le>s l then [CPanic (IString (log_format rt l) # v')] else [])
     @ (if LogLevelFatal \<le>s l then [CFatal (IString (log_format rt l) # v')] else [])
     @ (if t \<le>s l then [CPrint (IString (log_format rt l) # v')] else [])"
proof -
  have w: "\<not> LogLevelPanic \<le>s LogLevelWarn" "\<not> LogLevelFatal \<le>s LogLevelWarn"
    by (simp_all add: LogLevel_defs word_sle_eq)
  have 1: "calls (Warnf rt sink_only (traced d) f v'
            (SetLogger None (SetLogger (Some b') \<lparr>level = t, logger = x\<rparr>), ([], s'))) =
     (if t \<le>s LogLevelWarn then [CPrintf (logf_format rt LogLevelWarn f) v'] else [])"
    by (simp add: Warnf_def calls_sink sink_logf Logger_def SetLogger_def Enabled_def w)
  have 2: "calls (Warn rt sink_only (traced d) v'
            (SetLogger None (SetLogger (Some b') \<lparr>level = t, logger = x\<rparr>), ([], s'))) =
     (if t \<le>s LogLevelWarn then [CPrint (IString (log_format rt LogLevelWarn) # v')] else [])"
    by (simp add: Warn_def calls_sink sink_log Logger_def SetLogger_def Enabled_def w)
  have 3: "calls (logf rt sink_only (traced returning) l f v'
            (SetLogger None (SetLogger (Some b'') \<lparr>level = t, logger = x'\<rparr>), ([], ()))) =
       (if LogLevelPanic \<le>s l then [CPanicf (logf_format rt l f) v'] else [])
     @ (if LogLevelFatal \<le>s l then [CFatalf (logf_format rt l f) v'] else [])
     @ (if t \<le>s l then [CPrintf (logf_format rt l f) v'] else [])"
    by (simp add: calls_sink sink_logf Logger_def SetLogger_def Enabled_def returning_def)
  have 4: "calls (log rt sink_only (traced returning) l v'
            (SetLogger None (SetLogger (Some b'') \<lparr>level = t, logger = x'\<rparr>), ([], ()))) =
       (if LogLevelPanic \<le>s l then [CPanic (IString (log_format rt l) # v')] else [])
     @ (if LogLevelFatal \<le>s l then [CFatal (IString (log_format rt l) # v')] else [])
     @ (if t \<le>s l then [CPrint (IString (log_format rt l) # v')] else [])"
    by (simp add: calls_sink sink_log Logger_def SetLogger_def Enabled_def returning_def)
  have 5: "Logger dl (SetLogger None (SetLogger (Some b) c)) = dl"
    "Logger dl (SetLogger (Some b) c) = b"
    "logger (SetLogger None (SetLogger (Some b) c)) = None"
    "Logger dl (SetLogger (Some dl) c) = dl"
    "Enabled (SetLogger None (SetLogger (Some b) c)) l = (level c \<le>s l)"
    "Enabled (SetLogger (Some dl) c) l = (level c \<le>s l)"
    by (simp_all add: Logger_def SetLogger_def Enabled_def)
  show ?thesis
    by (intro conjI) (simp_all only: 1 2 3 4 5 sink_logf sink_log)
qed

text \<open>
  C8. The composed string starts with the tag \<open>upper/db: \<close> and contains the level's
  display name, on both paths. When the runtime reports the frame two above the dispatch
  function, the string is the tag, \<open>log_level=\<close>, the name, \<open> file=\<close>, the file, a colon,
  the line in decimal and a newline (followed by the caller's format string on the
  formatted path). When it does not, the string is the tag, the name and a newline
  (followed by the caller's format string on the formatted path). This string is what the
  backend receives, with or without caller information: on the formatted path as the
  format, with the caller's arguments; on the plain path as the first argument, in front
  of the caller's. Without caller information the call goes on as usual: with a backend
  that returns, it returns.
\<close>

theorem C8_composed_message:
  "prefix ''upper/db: '' (logf_format rt l f) \<and> prefix ''upper/db: '' (log_format rt l) \<and>
   sublist (logLevels_index l) (logf_format rt l f) \<and>
   sublist (logLevels_index l) (log_format rt l) \<and>
   logf_format (rt(2 := Some (file, line))) l f =
     ''upper/db: '' @ ''log_level='' @ logLevels_index l @ '' file='' @ file @ '':'' @
     fmt_d line @ [CHR 0x0A] @ f \<and>
   log_format (rt(2 := Some (file, line))) l =
     ''upper/db: '' @ ''log_level='' @ logLevels_index l @ '' file='' @ file @ '':'' @
     fmt_d line @ [CHR 0x0A] \<and>
   logf_format (rt(2 := None)) l f = ''upper/db: '' @ logLevels_index l @ [CHR 0x0A] @ f \<and>
   log_format (rt(2 := None)) l = ''upper/db: '' @ logLevels_index l @ [CHR 0x0A] \<and>
   logf_format (\<lambda>n. if n = 2 then Some (''main.go'', 42) else None) LogLevelWarn ''%d rows'' =
     ''upper/db: log_level=WARNING file=main.go:42'' @ [CHR 0x0A] @ ''%d rows'' \<and>
   log_format (\<lambda>n. None) LogLevelWarn = ''upper/db: WARNING'' @ [CHR 0x0A] \<and>
   calls (logf rt sink_only dl l f v
            (\<lparr>level = t, logger = Some (traced returning)\<rparr>, ([], ()))) =
       (if LogLevelPanic \<le>s l then [CPanicf (logf_format rt l f) v] else [])
     @ (if LogLevelFatal \<le>s l then [CFatalf (logf_format rt l f) v] else [])
     @ (if t \<le>s l then [CPrintf (logf_format rt l f) v] else []) \<and>
   calls (log rt sink_only dl l v
            (\<lparr>level = t, logger = Some (traced returning)\<rparr>, ([], ()))) =
       (if LogLevelPanic \<le>s l then [CPanic (IString (log_format rt l) # v)] else [])
     @ (if LogLevelFatal \<le>s l then [CFatal (IString (log_format rt l) # v)] else [])
     @ (if t \<le>s l then [CPrint (IString (log_format rt l) # v)] else []) \<and>
   calls (logf (rt(2 := None)) sink_only dl l f v
            (\<lparr>level = t, logger = Some (traced returning)\<rparr>, ([], ()))) =
       (if LogLevelPanic \<le>s l then [CPanicf (logf_format (rt(2 := None)) l f) v] else [])
     @ (if LogLevelFatal \<le>s l then [CFatalf (logf_format (rt(2 := None)) l f) v] else [])
     @ (if t \<le>s l then [CPrintf (logf_format (rt(2 := None)) l f) v] else []) \<and>
   calls (log (rt(2 := None)) sink_only dl l v
            (\<lparr>level = t, logger = Some (traced returning)\<rparr>, ([], ()))) =
       (if LogLevelPanic \<le>s l
        then [CPanic (IString (''upper/db: '' @ logLevels_index l @ [CHR 0x0A]) # v)] else [])
     @ (if LogLevelFatal \<le>s l
        then [CFatal (IString (''upper/db: '' @ logLevels_index l @ [CHR 0x0A]) # v)] else [])
     @ (if t \<le>s l
        then [CPrint (IString (''upper/db: '' @ logLevels_index l @ [CHR 0x0A]) # v)] else []) \<and>
   calls (Warn (rt(2 := Some (file, line))) sink_only dl v
            (\<lparr>level = LogLevelWarn, logger = Some (traced returning)\<rparr>, ([], ()))) =
     [CPrint (IString (''upper/db: '' @ ''log_level='' @ ''WARNING'' @ '' file='' @ file @
                       '':'' @ fmt_d line @ [CHR 0x0A]) # v)] \<and>
   calls (Warnf (rt(2 := Some (file, line))) sink_only dl f v
            (\<lparr>level = LogLevelWarn, logger = Some (traced returning)\<rparr>, ([], ()))) =
     [CPrintf (''upper/db: '' @ ''log_level='' @ ''WARNING'' @ '' file='' @ file @
               '':'' @ fmt_d line @ [CHR 0x0A] @ f) v] \<and>
   returned (logf (rt(2 := None)) sink_only dl l f v
            (\<lparr>level = t, logger = Some (traced returning)\<rparr>, ([], ()))) \<and>
   returned (log (rt(2 := None)) sink_only dl l v
            (\<lparr>level = t, logger = Some (traced returning)\<rparr>, ([], ())))"
proof -
  have d: "fmt_d 42 = ''42''"
    by code_simp
  have r: "returned (logf (rt(2 := None)) sink_only dl l f v
            (\<lparr>level = t, logger = Some (traced returning)\<rparr>, ([], ())))"
    "returned (log (rt(2 := None)) sink_only dl l v
            (\<lparr>level = t, logger = Some (traced returning)\<rparr>, ([], ())))"
    by (simp_all add: logf_def log_def Let_def on_sink_def noting_def returning_def)
  have c: "\<And>rt l t. calls (logf rt sink_only dl l f v
            (\<lparr>level = t, logger = Some (traced returning)\<rparr>, ([], ()))) =
       (if LogLevelPanic \<le>s l then [CPanicf (logf_format rt l f) v] else [])
     @ (if LogLevelFatal \<le>s l then [CFatalf (logf_format rt l f) v] else [])
     @ (if t \<le>s l then [CPrintf (logf_format rt l f) v] else [])"
    "\<And>rt l t. calls (log rt sink_only dl l v
            (\<lparr>level = t, logger = Some (traced returning)\<rparr>, ([], ()))) =
       (if LogLevelPanic \<le>s l then [CPanic (IString (log_format rt l) # v)] else [])
     @ (if LogLevelFatal \<le>s l then [CFatal (IString (log_format rt l) # v)] else [])
     @ (if t \<le>s l then [CPrint (IString (log_format rt l) # v)] else [])"
    by (simp_all add: calls_sink sink_logf sink_log returning_def Enabled_def)
  have e: "logf_format (rt(2 := Some (file, line))) l f =
     ''upper/db: '' @ ''log_level='' @ logLevels_index l @ '' file='' @ file @ '':'' @
     fmt_d line @ [CHR 0x0A] @ f"
    "log_format (rt(2 := Some (file, line))) l =
     ''upper/db: '' @ ''log_level='' @ logLevels_index l @ '' file='' @ file @ '':'' @
     fmt_d line @ [CHR 0x0A]"
    "logf_format (rt(2 := None)) l f = ''upper/db: '' @ logLevels_index l @ [CHR 0x0A] @ f"
    "log_format (rt(2 := None)) l = ''upper/db: '' @ logLevels_index l @ [CHR 0x0A]"
    "logf_format (\<lambda>n. if n = 2 then Some (''main.go'', 42) else None) LogLevelWarn ''%d rows'' =
     ''upper/db: log_level=WARNING file=main.go:42'' @ [CHR 0x0A] @ ''%d rows''"
    "log_format (\<lambda>n. None) LogLevelWarn = ''upper/db: WARNING'' @ [CHR 0x0A]"
    by (simp_all add: logf_format_def log_format_def d)
  have w: "\<not> LogLevelPanic \<le>s LogLevelWarn" "\<not> LogLevelFatal \<le>s LogLevelWarn"
    "LogLevelWarn \<le>s LogLevelWarn"
    by (simp_all add: LogLevel_defs word_sle_eq)
  have g: "calls (Warn (rt(2 := Some (file, line))) sink_only dl v
            (\<lparr>level = LogLevelWarn, logger = Some (traced returning)\<rparr>, ([], ()))) =
     [CPrint (IString (''upper/db: '' @ ''log_level='' @ ''WARNING'' @ '' file='' @ file @
                       '':'' @ fmt_d line @ [CHR 0x0A]) # v)]"
    "calls (Warnf (rt(2 := Some (file, line))) sink_only dl f v
            (\<lparr>level = LogLevelWarn, logger = Some (traced returning)\<rparr>, ([], ()))) =
     [CPrintf (''upper/db: '' @ ''log_level='' @ ''WARNING'' @ '' file='' @ file @
               '':'' @ fmt_d line @ [CHR 0x0A] @ f) v]"
    by (simp_all add: Warn_def Warnf_def c w logf_format_def log_format_def)
  show ?thesis
    using logf_format_parts [of rt l f] log_format_parts [of rt l] r e g
    by (intro conjI) (simp_all add: c)
qed

text \<open>
  C10, as the claim states it, says that a log call with any backend that returns leaves
  both fields of the collector unchanged. The package exports \<open>Log()\<close>, and with it the
  setters, to the code of a backend: with a backend whose print operation calls
  \<open>Log().SetLevel(LogLevelTrace)\<close> and \<open>Log().SetLogger(nil)\<close> and returns, a \<open>Warnf\<close>
  call on the default collector returns and leaves the threshold at Trace and the backend
  field \<open>nil\<close>.
\<close>

theorem C10_backend_can_reconfigure:
  "returned (Warnf (\<lambda>n. None) (\<lambda>h. reconfiguring LogLevelTrace None) () ''x''
              ([] :: unit iface list) (defaultLoggingCollector (), ())) \<and>
   fst (final (Warnf (\<lambda>n. None) (\<lambda>h. reconfiguring LogLevelTrace None) () ''x''
              ([] :: unit iface list) (defaultLoggingCollector (), ()))) =
     \<lparr>level = LogLevelTrace, logger = None\<rparr> \<and>
   level (defaultLoggingCollector ()) = LogLevelWarn \<and>
   logger (defaultLoggingCollector ()) = Some () \<and>
   fst (final (Warnf (\<lambda>n. None) (\<lambda>h. reconfiguring LogLevelTrace None) () ''x''
              ([] :: unit iface list) (defaultLoggingCollector (), ()))) \<noteq>
     defaultLoggingCollector ()"
proof -
  have w: "\<not> LogLevelPanic \<le>s LogLevelWarn" "\<not> LogLevelFatal \<le>s LogLevelWarn"
    "LogLevelWarn \<le>s LogLevelWarn"
    by (simp_all add: LogLevel_defs word_sle_eq)
  show ?thesis
    by (simp add: Warnf_def logf_def Let_def defaultLoggingCollector_def defaultLogLevel_def
        Enabled_def Logger_def reconfiguring_def SetLevel_def SetLogger_def w)
qed

text \<open>
  C10, as amended. The configuration fields change only through their own setters:
  \<open>SetLevel\<close> sets the threshold and leaves the backend field as it was, \<open>SetLogger\<close>
  sets the backend field and leaves the threshold as it was, and the dispatch functions
  and the fourteen per-level methods write neither field themselves. So after a call, at
  any level, with backends whose operations leave the collector as it is, the collector is
  the one the call started with, however the call ends; this is so for every backend that
  only writes to its sink.
\<close>

theorem C10_configuration_frame:
  "level (SetLevel l c) = l \<and> logger (SetLevel l c) = logger c \<and>
   logger (SetLogger b c) = b \<and> level (SetLogger b c) = level c \<and>
   ((\<forall>h f v w. fst (final (Fatal_op (impl h) v w)) = fst w \<and>
               fst (final (Fatalf_op (impl h) f v w)) = fst w \<and>
               fst (final (Print_op (impl h) v w)) = fst w \<and>
               fst (final (Printf_op (impl h) f v w)) = fst w \<and>
               fst (final (Panic_op (impl h) v w)) = fst w \<and>
               fst (final (Panicf_op (impl h) f v w)) = fst w) \<longrightarrow>
    fst (final (logf rt impl dl l f v (c, s))) = c \<and>
    fst (final (log rt impl dl l v (c, s))) = c \<and>
   fst (final (Tracef rt impl dl f v (c, s))) = c \<and>
   fst (final (Trace rt impl dl v (c, s))) = c \<and>
   fst (final (Debugf rt impl dl f v (c, s))) = c \<and>
   fst (final (Debug rt impl dl v (c, s))) = c \<and>
   fst (final (Infof rt impl dl f v (c, s))) = c \<and>
   fst (final (Info rt impl dl v (c, s))) = c \<and>
   fst (final (Warnf rt impl dl f v (c, s))) = c \<and>
   fst (final (Warn rt impl dl v (c, s))) = c \<and>
   fst (final (Errorf rt impl dl f v (c, s))) = c \<and>
   fst (final (Error rt impl dl v (c, s))) = c \<and>
   fst (final (Fatalf rt impl dl f v (c, s))) = c \<and>
   fst (final (Fatal rt impl dl v (c, s))) = c \<and>
   fst (final (Panicf rt impl dl f v (c, s))) = c \<and>
   fst (final (Panic rt impl dl v (c, s))) = c) \<and>
   fst (final (logf rt sink_only dl' l f' v' (c', s'))) = c' \<and>
   fst (final (log rt sink_only dl' l v' (c', s'))) = c' \<and>
   fst (final (Tracef rt sink_only dl' f' v' (c', s'))) = c' \<and>
   fst (final (Trace rt sink_only dl' v' (c', s'))) = c' \<and>
   fst (final (Debugf rt sink_only dl' f' v' (c', s'))) = c' \<and>
   fst (final (Debug rt sink_only dl' v' (c', s'))) = c' \<and>
   fst (final (Infof rt sink_only dl' f' v' (c', s'))) = c' \<and>
   fst (final (Info rt sink_only dl' v' (c', s'))) = c' \<and>
   fst (final (Warnf rt sink_only dl' f' v' (c', s'))) = c' \<and>
   fst (final (Warn rt sink_only dl' v' (c', s'))) = c' \<and>
   fst (final (Errorf rt sink_only dl' f' v' (c', s'))) = c' \<and>
   fst (final (Error rt sink_only dl' v' (c', s'))) = c' \<and>
   fst (final (Fatalf rt sink_only dl' f' v' (c', s'))) = c' \<and>
   fst (final (Fatal rt sink_only dl' v' (c', s'))) = c' \<and>
   fst (final (Panicf rt sink_only dl' f' v' (c', s'))) = c' \<and>
   fst (final (Panic rt sink_only dl' v' (c', s'))) = c'"
proof -
  have sink: "fst (final (logf rt sink_only dl' l f' v' (c', s'))) = c'"
    "fst (final (log rt sink_only dl' l v' (c', s'))) = c'" for l
    by (simp_all add: frame_logf_sink_only frame_log_sink_only)
  have gen: "fst (final (logf rt impl dl l f v (c, s))) = c"
    "fst (final (log rt impl dl l v (c, s))) = c"
    if keep: "\<forall>h f v w. fst (final (Fatal_op (impl h) v w)) = fst w \<and>
               fst (final (Fatalf_op (impl h) f v w)) = fst w \<and>
               fst (final (Print_op (impl h) v w)) = fst w \<and>
               fst (final (Printf_op (impl h) f v w)) = fst w \<and>
               fst (final (Panic_op (impl h) v w)) = fst w \<and>
               fst (final (Panicf_op (impl h) f v w)) = fst w" for l
  proof -
    from keep have k:
      "\<And>h v w. fst (final (Fatal_op (impl h) v w)) = fst w"
      "\<And>h f v w. fst (final (Fatalf_op (impl h) f v w)) = fst w"
      "\<And>h v w. fst (final (Print_op (impl h) v w)) = fst w"
      "\<And>h f v w. fst (final (Printf_op (impl h) f v w)) = fst w"
      "\<And>h v w. fst (final (Panic_op (impl h) v w)) = fst w"
      "\<And>h f v w. fst (final (Panicf_op (impl h) f v w)) = fst w"
      by blast+
    show "fst (final (logf rt impl dl l f v (c, s))) = c"
      using frame_logf [of impl rt dl l f v "(c, s)"] k by simp
    show "fst (final (log rt impl dl l v (c, s))) = c"
      using frame_log [of impl rt dl l v "(c, s)"] k by simp
  qed
  show ?thesis
    by (simp add: SetLevel_def SetLogger_def sink gen
      Tracef_def Trace_def Debugf_def Debug_def Infof_def Info_def Warnf_def Warn_def
      Errorf_def Error_def Fatalf_def Fatal_def Panicf_def Panic_def)
qed

text \<open>
  C10 as amended, at a concrete input: every backend that only writes to its sink leaves
  the collector as it is, and a \<open>Warnf\<close> call on the default collector with the backend
  of the standard library's kind ends with the default collector.
\<close>

theorem C10_configuration_frame_witness:
  "(\<forall>(h :: (unit, unit call list \<times> unit) Logger) f v
      (w :: ((unit, unit call list \<times> unit) Logger, unit call list \<times> unit) world).
       fst (final (Fatal_op (sink_only h) v w)) = fst w \<and>
       fst (final (Fatalf_op (sink_only h) f v w)) = fst w \<and>
       fst (final (Print_op (sink_only h) v w)) = fst w \<and>
       fst (final (Printf_op (sink_only h) f v w)) = fst w \<and>
       fst (final (Panic_op (sink_only h) v w)) = fst w \<and>
       fst (final (Panicf_op (sink_only h) f v w)) = fst w) \<and>
   fst (final (Warnf (\<lambda>n. None) sink_only (traced std_logger) ''x'' []
          (defaultLoggingCollector (traced (std_logger :: (unit, unit) Logger)), ([], ())))) =
     defaultLoggingCollector (traced std_logger)"
proof -
  have h: "\<forall>(h :: (unit, unit call list \<times> unit) Logger) f v
      (w :: ((unit, unit call list \<times> unit) Logger, unit call list \<times> unit) world).
       fst (final (Fatal_op (sink_only h) v w)) = fst w \<and>
       fst (final (Fatalf_op (sink_only h) f v w)) = fst w \<and>
       fst (final (Print_op (sink_only h) v w)) = fst w \<and>
       fst (final (Printf_op (sink_only h) f v w)) = fst w \<and>
       fst (final (Panic_op (sink_only h) v w)) = fst w \<and>
       fst (final (Panicf_op (sink_only h) f v w)) = fst w"
    by simp
  show ?thesis
    using h C10_configuration_frame [where impl = "sink_only ::
          (unit, unit call list \<times> unit) Logger \<Rightarrow> _"
        and rt = "\<lambda>n. None" and dl = "traced std_logger" and f = "''x''" and v = "[]"
        and c = "defaultLoggingCollector (traced (std_logger :: (unit, unit) Logger))"
        and s = "([], ())" and l = LogLevelWarn and b = None
        and dl' = "traced (std_logger :: (unit, unit) Logger)" and f' = "''x''"
        and v' = "[] :: unit iface list"
        and c' = "defaultLoggingCollector (traced (std_logger :: (unit, unit) Logger))"
        and s' = "([] :: unit call list, ())"]
    by simp
qed

end
